theory Spec2Isabelle
  imports Complex_Main "HOL-Library.Multiset" "HOL-Library.Sublist"
begin

section \<open>Data model\<close>

text \<open>
  The three scripts (\<^verbatim>\<open>CNN_LSTM_Hybrid.py\<close>, \<^verbatim>\<open>GradientBoost.py\<close>,
  \<^verbatim>\<open>resnet_Optimized.py\<close>) share one pipeline and differ in a few parameters.
\<close>

datatype variant = Recurrent | Boosted | Residual

text \<open>
  A cell of a float64 column of the data frame. A missing value is \<open>NaN\<close>; every
  comparison with \<open>NaN\<close> is false, as in pandas and numpy.
\<close>

datatype cell = NaN | Num real

definition cell_le :: "cell \<Rightarrow> real \<Rightarrow> bool" where
  "cell_le c t = (case c of NaN \<Rightarrow> False | Num x \<Rightarrow> x \<le> t)"

definition cell_ge :: "cell \<Rightarrow> real \<Rightarrow> bool" where
  "cell_ge c t = (case c of NaN \<Rightarrow> False | Num x \<Rightarrow> t \<le> x)"

text \<open>One row of the input table; the columns are those the scripts read.\<close>

record FeatureRow =
  hrv_sdnn :: cell
  hrv_rmssd :: cell
  hrv_mean :: cell
  cv :: cell
  heart_rate_std :: cell
  heart_rate_mean :: cell
  sd1 :: cell
  sd2 :: cell
  signal_quality :: cell
  num_AFIB_annotations :: nat
  has_AFIB :: nat

type_synonym dataframe = "FeatureRow list"

section \<open>Quality filtering (the first four statements of \<^verbatim>\<open>prepare_data\<close>)\<close>

text \<open>
  \<^verbatim>\<open>df = df[df['signal_quality'] >= 0.3]\<close> in the recurrent and boosted scripts,
  \<^verbatim>\<open>>= 0.5\<close> in the residual one.
\<close>

definition quality_threshold :: "variant \<Rightarrow> real" where
  "quality_threshold v = (case v of Recurrent \<Rightarrow> 3 / 10 | Boosted \<Rightarrow> 3 / 10 | Residual \<Rightarrow> 1 / 2)"

text \<open>The four boolean masks, in the order in which \<^verbatim>\<open>prepare_data\<close> applies them.\<close>

definition sdnn_ok :: "FeatureRow \<Rightarrow> bool" where
  "sdnn_ok r = cell_le (hrv_sdnn r) 500"

definition rmssd_ok :: "FeatureRow \<Rightarrow> bool" where
  "rmssd_ok r = cell_le (hrv_rmssd r) 500"

definition cv_ok :: "FeatureRow \<Rightarrow> bool" where
  "cv_ok r = cell_le (cv r) (1 / 2)"

definition quality_ok :: "variant \<Rightarrow> FeatureRow \<Rightarrow> bool" where
  "quality_ok v r = cell_ge (signal_quality r) (quality_threshold v)"

text \<open>
  \<^verbatim>\<open>df = df[mask]\<close> keeps the rows whose mask entry is true, in their order and
  unchanged. The data frame is rebound after each of the four selections.
\<close>

definition prepare_data_filter :: "variant \<Rightarrow> dataframe \<Rightarrow> dataframe" where
  "prepare_data_filter v df0 =
     (let df1 = filter sdnn_ok df0;
          df2 = filter rmssd_ok df1;
          df3 = filter cv_ok df2;
          df4 = filter (quality_ok v) df3
      in df4)"

text \<open>The same four selections applied in an arbitrary order, one after the other.\<close>

definition quality_masks :: "variant \<Rightarrow> (FeatureRow \<Rightarrow> bool) list" where
  "quality_masks v = [sdnn_ok, rmssd_ok, cv_ok, quality_ok v]"

definition apply_masks :: "(FeatureRow \<Rightarrow> bool) list \<Rightarrow> dataframe \<Rightarrow> dataframe" where
  "apply_masks ms df = fold (\<lambda>m d. filter m d) ms df"

section \<open>Errors and the file system\<close>

text \<open>
  The scripts define no exception classes: every failure is an exception raised inside a
  library call and never caught, so it aborts the run. The constructors name the
  categories of the specification's taxonomy:
  \<^item> \<open>EmptyDatasetError\<close>: \<^verbatim>\<open>StandardScaler.fit_transform\<close> on a table of zero rows;
  \<^item> \<open>InsufficientSamplesError\<close>: \<^verbatim>\<open>SMOTE.fit_resample\<close> with too small a minority class;
  \<^item> \<open>MetricUndefinedError\<close>: \<^verbatim>\<open>roc_auc_score\<close> on labels of a single class;
  \<^item> \<open>MulticlassError\<close>: a label other than 0 and 1 where two classes are expected;
  \<^item> \<open>InconsistentLengthError\<close>: label and prediction arrays of different lengths;
  \<^item> \<open>NonFiniteError\<close>: a missing value where the library accepts none;
  \<^item> \<open>LayerInputError\<close>: a network layer given an input of a shape it does not accept;
  \<^item> \<open>ReportWriteError\<close>: a file that cannot be written;
  \<^item> \<open>FileNotFoundError\<close>: a file that is read or removed and does not exist.
\<close>

datatype error =
    EmptyDatasetError
  | InsufficientSamplesError
  | MetricUndefinedError
  | MulticlassError
  | InconsistentLengthError
  | NonFiniteError
  | LayerInputError
  | ReportWriteError
  | FileNotFoundError string

text \<open>
  Model objects. The layer classes, the classifier and the training are library code,
  not in the repository. Of a layer the model keeps its constructor arguments and its
  shape rule: which input shapes (without the batch axis) it accepts and which shape it
  returns. Of a model object it keeps what it was built from and how many calls of
  \<^verbatim>\<open>fit\<close> it has completed (0 for a model that was only constructed or compiled).
\<close>

datatype layer =
    Conv1D nat nat "(nat \<times> nat) option"
  | BatchNormalization
  | MaxPooling1D nat
  | Flatten
  | LSTM nat bool
  | Dropout real
  | Dense nat

text \<open>
  \<open>Conv1D filters kernel_size input_shape\<close> (padding \<open>valid\<close>) and \<open>MaxPooling1D pool_size\<close>
  take \<open>(steps, channels)\<close>; \<open>Flatten\<close> returns one axis; \<open>LSTM units return_sequences\<close>
  takes \<open>(steps, features)\<close> and nothing else; \<open>Dense units\<close> replaces the last axis.
\<close>

fun layer_output :: "layer \<Rightarrow> nat list \<Rightarrow> error + nat list" where
  "layer_output (Conv1D f k i) [steps, ch] =
     (if 0 < k \<and> k \<le> steps then Inr [steps - k + 1, f] else Inl LayerInputError)"
| "layer_output (Conv1D f k i) s = Inl LayerInputError"
| "layer_output BatchNormalization s = Inr s"
| "layer_output (MaxPooling1D p) [steps, ch] =
     (if 0 < p \<and> p \<le> steps then Inr [steps div p, ch] else Inl LayerInputError)"
| "layer_output (MaxPooling1D p) s = Inl LayerInputError"
| "layer_output Flatten s = Inr [prod_list s]"
| "layer_output (LSTM u rs) [steps, feat] = Inr (if rs then [steps, u] else [u])"
| "layer_output (LSTM u rs) s = Inl LayerInputError"
| "layer_output (Dropout r) s = Inr s"
| "layer_output (Dense u) [] = Inl LayerInputError"
| "layer_output (Dense u) s = Inr (butlast s @ [u])"

record sequential =
  layers :: "layer list"
  output_shape :: "nat list"
  compiled :: bool

record xgb_params =
  n_estimators :: nat
  learning_rate :: real
  max_depth :: nat
  subsample :: real
  colsample_bytree :: real
  gamma :: real
  min_child_weight :: nat

record 'p estimator =
  params :: 'p
  fit_count :: nat

text \<open>What the report renderer puts on the PDF canvas, in drawing order.\<close>

datatype pdf_item = DrawImage string | DrawString string | DrawNumber real

type_synonym report_table = "(string \<times> real list) list"

datatype artifact =
    ReportImage report_table
  | HeatmapImage "nat list list"
  | PdfDocument "pdf_item list"
  | KerasModelFile "sequential estimator"
  | PickleFile "xgb_params option estimator"

type_synonym filesystem = "string \<rightharpoonup> artifact"

text \<open>
  The outcome of a statement that touches the file system: the value or the exception,
  and the file system it leaves behind in either case.
\<close>

type_synonym 'a io = "(error + 'a) \<times> filesystem"

text \<open>
  \<^verbatim>\<open>plt.savefig(path)\<close> and \<^verbatim>\<open>canvas.save()\<close> write one file. Whether a path can be
  written is a fact of the machine, given by \<open>writable\<close>.
\<close>

definition write_file :: "(string \<Rightarrow> bool) \<Rightarrow> string \<Rightarrow> artifact \<Rightarrow> filesystem \<Rightarrow> unit io" where
  "write_file writable path f fs =
     (if writable path then (Inr (), fs(path \<mapsto> f)) else (Inl ReportWriteError, fs))"

text \<open>\<^verbatim>\<open>canvas.drawImage(path, ...)\<close> opens the image file.\<close>

definition read_file :: "string \<Rightarrow> filesystem \<Rightarrow> error + artifact" where
  "read_file path fs = (case fs path of None \<Rightarrow> Inl (FileNotFoundError path) | Some f \<Rightarrow> Inr f)"

text \<open>\<^verbatim>\<open>os.remove(path)\<close> raises when the file does not exist.\<close>

definition os_remove :: "string \<Rightarrow> filesystem \<Rightarrow> unit io" where
  "os_remove path fs =
     (case fs path of None \<Rightarrow> (Inl (FileNotFoundError path), fs)
      | Some f \<Rightarrow> (Inr (), fs(path := None)))"

section \<open>Evaluation metrics\<close>

text \<open>
  \<^verbatim>\<open>np.argmax(m, axis=1)\<close> on a matrix of two columns: the first index of the largest
  entry of each row.
\<close>

definition argmax2 :: "'a::linorder \<times> 'a \<Rightarrow> nat" where
  "argmax2 p = (if fst p < snd p then 1 else 0)"

text \<open>
  \<^verbatim>\<open>accuracy_score\<close>: the fraction of positions where the two label arrays agree. The
  library refuses arrays of different lengths; a test set is never empty after
  \<^verbatim>\<open>train_test_split\<close>, and an empty one is reported as an error here.
\<close>

definition accuracy_score :: "nat list \<Rightarrow> nat list \<Rightarrow> error + real" where
  "accuracy_score y_true y_pred =
     (if length y_true \<noteq> length y_pred then Inl InconsistentLengthError
      else if y_true = [] then Inl EmptyDatasetError
      else Inr (real (length (filter (\<lambda>(t, p). t = p) (zip y_true y_pred))) /
                real (length y_true)))"

text \<open>
  \<^verbatim>\<open>confusion_matrix\<close>: rows are true classes, columns predicted classes, over the sorted
  labels that occur in either array.
\<close>

definition confusion_matrix :: "nat list \<Rightarrow> nat list \<Rightarrow> nat list list" where
  "confusion_matrix y_true y_pred =
     (let labels = sort (remdups (y_true @ y_pred))
      in map (\<lambda>a. map (\<lambda>b. length (filter (\<lambda>(t, p). t = a \<and> p = b) (zip y_true y_pred)))
                labels) labels)"

text \<open>
  Modelled from the spec: \<^verbatim>\<open>sklearn.metrics.roc_auc_score\<close> is a library function, not
  in the repository. The specification defines ROC-AUC as the area under the ROC
  curve of a score against binary labels, undefined (\<open>MetricUndefinedError\<close>) when only
  one class is present. The area is computed in its rank form: the fraction of
  (positive, negative) pairs of samples that the score orders correctly, a tie counting
  one half.
\<close>

definition pair_credit :: "real \<Rightarrow> real \<Rightarrow> real" where
  "pair_credit sp sn = (if sn < sp then 1 else if sn = sp then 1 / 2 else 0)"

definition scores_of :: "nat \<Rightarrow> nat list \<Rightarrow> real list \<Rightarrow> real list" where
  "scores_of c y s = map snd (filter (\<lambda>(l, x). l = c) (zip y s))"

definition pairs_credit :: "real list \<Rightarrow> real list \<Rightarrow> real" where
  "pairs_credit pos neg = (\<Sum>sp\<leftarrow>pos. \<Sum>sn\<leftarrow>neg. pair_credit sp sn)"

definition binary_roc_auc :: "nat list \<Rightarrow> real list \<Rightarrow> error + real" where
  "binary_roc_auc y s =
     (if length y \<noteq> length s then Inl InconsistentLengthError
      else if \<not> list_all (\<lambda>l. l = 0 \<or> l = 1) y then Inl MulticlassError
      else let pos = scores_of 1 y s; neg = scores_of 0 y s
           in if pos = [] \<or> neg = [] then Inl MetricUndefinedError
              else Inr (pairs_credit pos neg / (real (length pos) * real (length neg))))"

text \<open>
  \<^verbatim>\<open>GradientBoost.py\<close> calls \<^verbatim>\<open>roc_auc_score(y_test, y_pred_proba[:, 1])\<close>: a label
  vector and the score of class 1.
\<close>

definition roc_auc_score_binary :: "nat list \<Rightarrow> (real \<times> real) list \<Rightarrow> error + real" where
  "roc_auc_score_binary y_test y_pred_proba = binary_roc_auc y_test (map snd y_pred_proba)"

text \<open>
  \<^verbatim>\<open>CNN_LSTM_Hybrid.py\<close> and \<^verbatim>\<open>resnet_Optimized.py\<close> call
  \<^verbatim>\<open>roc_auc_score(y_test, y_pred_proba)\<close> with the one-hot label matrix and the whole
  probability matrix. The library takes a 0/1 matrix of two columns for a multilabel
  target and returns the unweighted mean of the per-column areas (\<^verbatim>\<open>average='macro'\<close>),
  raising as soon as one column is undefined.
\<close>

definition roc_auc_score_matrix :: "(nat \<times> nat) list \<Rightarrow> (real \<times> real) list \<Rightarrow> error + real" where
  "roc_auc_score_matrix y_test y_pred_proba =
     (case binary_roc_auc (map fst y_test) (map fst y_pred_proba) of
        Inl e \<Rightarrow> Inl e
      | Inr a0 \<Rightarrow>
          (case binary_roc_auc (map snd y_test) (map snd y_pred_proba) of
             Inl e \<Rightarrow> Inl e
           | Inr a1 \<Rightarrow> Inr ((a0 + a1) / 2)))"

text \<open>
  \<^verbatim>\<open>to_categorical(y, num_classes)\<close>: the one-hot rows of an array of class labels.
  Without \<^verbatim>\<open>num_classes\<close> the rows have one column more than the largest label; with it,
  a label that is not below \<^verbatim>\<open>num_classes\<close> is an index out of range.
\<close>

definition to_categorical :: "nat option \<Rightarrow> nat list \<Rightarrow> error + nat list list" where
  "to_categorical num_classes ys =
     (let n = (case num_classes of None \<Rightarrow> Suc (fold max ys 0) | Some k \<Rightarrow> k)
      in if list_ex (\<lambda>l. n \<le> l) ys then Inl MulticlassError
         else Inr (map (\<lambda>l. map (\<lambda>j. if j = l then 1 else 0) [0..<n]) ys))"

text \<open>
  The metrics part of \<^verbatim>\<open>evaluate_model\<close>: accuracy, confusion matrix, ROC-AUC, in the
  order of the calls. In the network scripts \<^verbatim>\<open>model.predict\<close> returns the softmax
  rows and both label arrays are recovered with \<^verbatim>\<open>argmax\<close>.
\<close>

record metrics =
  accuracy :: real
  conf_matrix :: "nat list list"
  roc_auc :: real

definition network_metrics :: "(nat \<times> nat) list \<Rightarrow> (real \<times> real) list \<Rightarrow> error + metrics" where
  "network_metrics y_test y_pred_proba =
     (let y_pred = map argmax2 y_pred_proba;
          y_true = map argmax2 y_test
      in case accuracy_score y_true y_pred of
           Inl e \<Rightarrow> Inl e
         | Inr acc \<Rightarrow>
             (let cm = confusion_matrix y_true y_pred
              in case roc_auc_score_matrix y_test y_pred_proba of
                   Inl e \<Rightarrow> Inl e
                 | Inr auc \<Rightarrow> Inr \<lparr> accuracy = acc, conf_matrix = cm, roc_auc = auc \<rparr>))"

definition boosted_metrics :: "nat list \<Rightarrow> nat list \<Rightarrow> (real \<times> real) list \<Rightarrow> error + metrics" where
  "boosted_metrics y_test y_pred y_pred_proba =
     (case accuracy_score y_test y_pred of
        Inl e \<Rightarrow> Inl e
      | Inr acc \<Rightarrow>
          (let cm = confusion_matrix y_test y_pred
           in case roc_auc_score_binary y_test y_pred_proba of
                Inl e \<Rightarrow> Inl e
              | Inr auc \<Rightarrow> Inr \<lparr> accuracy = acc, conf_matrix = cm, roc_auc = auc \<rparr>))"

section \<open>Report rendering\<close>

definition pdf_filename :: "variant \<Rightarrow> string" where
  "pdf_filename v = (case v of
       Recurrent \<Rightarrow> ''../reports/model_evaluation_CNN_LSTM.pdf''
     | Boosted \<Rightarrow> ''../reports/model_evaluation_Gradient_Boosting.pdf''
     | Residual \<Rightarrow> ''../reports/model_evaluation_ResNet_optm.pdf'')"

definition create_classification_report_image ::
    "(string \<Rightarrow> bool) \<Rightarrow> report_table \<Rightarrow> filesystem \<Rightarrow> unit io" where
  "create_classification_report_image writable class_report_df fs =
     write_file writable ''classification_report.png'' (ReportImage class_report_df) fs"

text \<open>
  \<^verbatim>\<open>create_pdf\<close>: the canvas is filled in memory and written by \<^verbatim>\<open>c.save()\<close> at the
  end; in between the heat map is saved and read back.
\<close>

definition create_pdf ::
    "(string \<Rightarrow> bool) \<Rightarrow> variant \<Rightarrow> real \<Rightarrow> real \<Rightarrow> nat list list \<Rightarrow> filesystem \<Rightarrow> unit io" where
  "create_pdf writable v acc auc cm fs =
     (case read_file ''classification_report.png'' fs of
        Inl e \<Rightarrow> (Inl e, fs)
      | Inr img1 \<Rightarrow>
          (case write_file writable ''confusion_matrix.png'' (HeatmapImage cm) fs of
             (Inl e, fs1) \<Rightarrow> (Inl e, fs1)
           | (Inr u, fs1) \<Rightarrow>
               (case read_file ''confusion_matrix.png'' fs1 of
                  Inl e \<Rightarrow> (Inl e, fs1)
                | Inr img2 \<Rightarrow>
                    write_file writable (pdf_filename v)
                      (PdfDocument
                        [DrawImage ''classification_report.png'',
                         DrawString ''Accuracy'', DrawNumber acc,
                         DrawString ''ROC AUC Score'', DrawNumber auc,
                         DrawString ''Classification Report'',
                         DrawImage ''confusion_matrix.png'']) fs1)))"

definition delete_images :: "filesystem \<Rightarrow> unit io" where
  "delete_images fs =
     (case os_remove ''classification_report.png'' fs of
        (Inl e, fs1) \<Rightarrow> (Inl e, fs1)
      | (Inr u, fs1) \<Rightarrow> os_remove ''confusion_matrix.png'' fs1)"

text \<open>
  The three statements that end \<^verbatim>\<open>evaluate_model\<close> in all three scripts. There is no
  \<^verbatim>\<open>try\<close> around them: an exception of one statement skips the following ones.
\<close>

definition render_report ::
    "(string \<Rightarrow> bool) \<Rightarrow> variant \<Rightarrow> report_table \<Rightarrow> metrics \<Rightarrow> filesystem \<Rightarrow> unit io" where
  "render_report writable v class_report_df m fs =
     (case create_classification_report_image writable class_report_df fs of
        (Inl e, fs1) \<Rightarrow> (Inl e, fs1)
      | (Inr u, fs1) \<Rightarrow>
          (case create_pdf writable v (accuracy m) (roc_auc m) (conf_matrix m) fs1 of
             (Inl e, fs2) \<Rightarrow> (Inl e, fs2)
           | (Inr u, fs2) \<Rightarrow> delete_images fs2))"

text \<open>
  \<^verbatim>\<open>evaluate_model(model, x_test, y_test)\<close>. The fitted model is given by what it
  predicts for one sample; \<^verbatim>\<open>classification_report\<close> is the library's table builder,
  whose content only goes into the image.
\<close>

definition evaluate_model_network ::
    "(string \<Rightarrow> bool) \<Rightarrow> (nat list \<Rightarrow> nat list \<Rightarrow> report_table) \<Rightarrow> variant \<Rightarrow>
     ('x \<Rightarrow> real \<times> real) \<Rightarrow> 'x list \<Rightarrow> (nat \<times> nat) list \<Rightarrow> filesystem \<Rightarrow> unit io" where
  "evaluate_model_network writable classification_report v predict x_test y_test fs =
     (let y_pred_proba = map predict x_test
      in case network_metrics y_test y_pred_proba of
           Inl e \<Rightarrow> (Inl e, fs)
         | Inr m \<Rightarrow>
             render_report writable v
               (classification_report (map argmax2 y_test) (map argmax2 y_pred_proba)) m fs)"

definition evaluate_model_boosted ::
    "(string \<Rightarrow> bool) \<Rightarrow> (nat list \<Rightarrow> nat list \<Rightarrow> report_table) \<Rightarrow>
     ('x \<Rightarrow> real \<times> real) \<Rightarrow> ('x \<Rightarrow> nat) \<Rightarrow> 'x list \<Rightarrow> nat list \<Rightarrow> filesystem \<Rightarrow> unit io" where
  "evaluate_model_boosted writable classification_report predict_proba predict x_test y_test fs =
     (let y_pred_proba = map predict_proba x_test;
          y_pred = map predict x_test
      in case boosted_metrics y_test y_pred y_pred_proba of
           Inl e \<Rightarrow> (Inl e, fs)
         | Inr m \<Rightarrow>
             render_report writable Boosted (classification_report y_test y_pred) m fs)"

section \<open>Model building\<close>

text \<open>
  \<^verbatim>\<open>model.fit(...)\<close>: training changes the weights of the object; here it is counted.
\<close>

definition fit :: "'p estimator \<Rightarrow> 'p estimator" where
  "fit m = m \<lparr> fit_count := Suc (fit_count m) \<rparr>"

text \<open>
  \<^verbatim>\<open>Sequential()\<close>, \<^verbatim>\<open>model.add(layer)\<close> and \<^verbatim>\<open>model.compile(...)\<close>. The first layer
  carries \<^verbatim>\<open>input_shape\<close>, so the model is built as layers are added: \<^verbatim>\<open>add\<close> applies the
  new layer to the current output and raises when the layer does not accept it.
\<close>

definition Sequential :: "sequential estimator" where
  "Sequential = \<lparr> params = \<lparr> layers = [], output_shape = [], compiled = False \<rparr>,
                  fit_count = 0 \<rparr>"

definition layer_input :: "layer \<Rightarrow> nat list \<Rightarrow> nat list" where
  "layer_input l s = (case l of Conv1D f k (Some (a, b)) \<Rightarrow> [a, b] | _ \<Rightarrow> s)"

definition model_add :: "layer \<Rightarrow> sequential estimator \<Rightarrow> error + sequential estimator" where
  "model_add l m =
     (case layer_output l (layer_input l (output_shape (params m))) of
        Inl e \<Rightarrow> Inl e
      | Inr s \<Rightarrow>
          Inr (m \<lparr> params := (params m) \<lparr> layers := layers (params m) @ [l],
                                          output_shape := s \<rparr> \<rparr>))"

fun add_layers :: "layer list \<Rightarrow> sequential estimator \<Rightarrow> error + sequential estimator" where
  "add_layers [] m = Inr m"
| "add_layers (l # ls) m =
     (case model_add l m of Inl e \<Rightarrow> Inl e | Inr m' \<Rightarrow> add_layers ls m')"

definition model_compile :: "sequential estimator \<Rightarrow> sequential estimator" where
  "model_compile m = m \<lparr> params := (params m) \<lparr> compiled := True \<rparr> \<rparr>"

text \<open>
  \<^verbatim>\<open>build_cnn_lstm_model\<close> of \<^verbatim>\<open>CNN_LSTM_Hybrid.py\<close>: the fourteen layers are added in
  the order of the source (\<^verbatim>\<open>Flatten\<close> directly before the first \<^verbatim>\<open>LSTM\<close>), the model is
  compiled, saved with \<^verbatim>\<open>model.save\<close> and returned. Its callers (\<^verbatim>\<open>objective\<close> and
  \<^verbatim>\<open>main\<close>) call \<^verbatim>\<open>fit\<close> on the returned object.
\<close>

definition build_cnn_lstm_model ::
    "(string \<Rightarrow> bool) \<Rightarrow> nat \<times> nat \<Rightarrow> nat \<Rightarrow> nat \<Rightarrow> nat \<Rightarrow> real \<Rightarrow> filesystem \<Rightarrow>
     sequential estimator io" where
  "build_cnn_lstm_model writable input_shape num_filters kernel_size lstm_units dropout_rate fs =
     (case add_layers
             [Conv1D num_filters kernel_size (Some input_shape),
              BatchNormalization,
              MaxPooling1D 2,
              Conv1D (num_filters * 2) kernel_size None,
              BatchNormalization,
              MaxPooling1D 2,
              Flatten,
              LSTM lstm_units True,
              Dropout dropout_rate,
              LSTM lstm_units True,
              Dropout dropout_rate,
              LSTM lstm_units False,
              Dropout dropout_rate,
              Dense 2] Sequential of
        Inl e \<Rightarrow> (Inl e, fs)
      | Inr added \<Rightarrow>
          (let model = model_compile added
           in case write_file writable ''../models/CNN_LSTM_Hybrid_model.keras''
                     (KerasModelFile model) fs of
                (Inl e, fs1) \<Rightarrow> (Inl e, fs1)
              | (Inr u, fs1) \<Rightarrow> (Inr model, fs1)))"

text \<open>
  \<^verbatim>\<open>RandomizedSearchCV(model, ..., cv=3).fit(x_train, y_train)\<close> refuses arrays of
  different lengths and fewer samples than folds. It then fits clones of the estimator
  and leaves in \<^verbatim>\<open>best_estimator_\<close> a clone with the best parameters, refitted on the
  whole training set. Which parameters win, or which error the fits end in, is the
  library's search, given by \<open>search\<close>.
\<close>

definition random_search_best_estimator ::
    "(real list list \<Rightarrow> nat list \<Rightarrow> error + xgb_params) \<Rightarrow> xgb_params option estimator \<Rightarrow>
     real list list \<Rightarrow> nat list \<Rightarrow> error + xgb_params option estimator" where
  "random_search_best_estimator search model x_train y_train =
     (if length x_train \<noteq> length y_train then Inl InconsistentLengthError
      else if length x_train < 3 then Inl InsufficientSamplesError
      else (case search x_train y_train of
              Inl e \<Rightarrow> Inl e
            | Inr best \<Rightarrow> Inr (fit (model \<lparr> params := Some best, fit_count := 0 \<rparr>))))"

text \<open>
  \<^verbatim>\<open>build_gradient_boosting_model\<close> of \<^verbatim>\<open>GradientBoost.py\<close>: the classifier is
  constructed with the library's default parameters, pickled, and only then handed to
  the search. An error of the search leaves the pickled file behind.
\<close>

definition build_gradient_boosting_model ::
    "(string \<Rightarrow> bool) \<Rightarrow> (real list list \<Rightarrow> nat list \<Rightarrow> error + xgb_params) \<Rightarrow>
     real list list \<Rightarrow> nat list \<Rightarrow> filesystem \<Rightarrow> xgb_params option estimator io" where
  "build_gradient_boosting_model writable search x_train y_train fs =
     (let model = \<lparr> params = None, fit_count = 0 \<rparr>
      in case write_file writable ''../models/XGBoost_model.pkl'' (PickleFile model) fs of
           (Inl e, fs1) \<Rightarrow> (Inl e, fs1)
         | (Inr u, fs1) \<Rightarrow>
             (case random_search_best_estimator search model x_train y_train of
                Inl e \<Rightarrow> (Inl e, fs1)
              | Inr best \<Rightarrow> (Inr best, fs1)))"

section \<open>Normalisation, resampling and splitting (the rest of \<^verbatim>\<open>prepare_data\<close>)\<close>

definition feature_columns :: "variant \<Rightarrow> (FeatureRow \<Rightarrow> cell) list" where
  "feature_columns v = (case v of
       Residual \<Rightarrow> [hrv_sdnn, hrv_rmssd, hrv_mean, cv]
     | _ \<Rightarrow> [hrv_sdnn, hrv_rmssd, hrv_mean, cv, heart_rate_std, heart_rate_mean, sd1, sd2])"

definition label_column :: "variant \<Rightarrow> FeatureRow \<Rightarrow> nat" where
  "label_column v = (case v of Residual \<Rightarrow> has_AFIB | _ \<Rightarrow> num_AFIB_annotations)"

text \<open>
  Modelled from the spec: \<^verbatim>\<open>StandardScaler.fit_transform\<close> is a library function, not
  in the repository. The specification has it compute the mean and the standard
  deviation of each column over the filtered rows and map the column to zero mean and
  unit variance, and fail with \<open>EmptyDatasetError\<close> when no row is left. Missing values
  take no part in the statistics and stay missing; a constant column is only centred.
\<close>

definition nums :: "cell list \<Rightarrow> real list" where
  "nums col = concat (map (\<lambda>c. case c of NaN \<Rightarrow> [] | Num r \<Rightarrow> [r]) col)"

definition column_mean :: "cell list \<Rightarrow> real" where
  "column_mean col = sum_list (nums col) / real (length (nums col))"

definition column_std :: "cell list \<Rightarrow> real" where
  "column_std col =
     sqrt (sum_list (map (\<lambda>r. (r - column_mean col)\<^sup>2) (nums col)) / real (length (nums col)))"

definition scale_cell :: "real \<Rightarrow> real \<Rightarrow> cell \<Rightarrow> cell" where
  "scale_cell m sd c =
     (case c of NaN \<Rightarrow> NaN | Num r \<Rightarrow> Num ((r - m) / (if sd = 0 then 1 else sd)))"

definition fit_transform :: "cell list list \<Rightarrow> error + cell list list" where
  "fit_transform x =
     (if x = [] then Inl EmptyDatasetError
      else Inr (map (\<lambda>row. map (\<lambda>(j, c). let col = map (\<lambda>r. r ! j) x
                                          in scale_cell (column_mean col) (column_std col) c)
                             (enumerate 0 row)) x))"

text \<open>
  The pseudo-random number generator behind \<^verbatim>\<open>random_state=42\<close>: for a seed, the
  permutation of \<open>n\<close> indices it draws, and its draws of integers and of numbers in
  \<open>[0, 1)\<close> (indexed by the class they are drawn for and their position).
\<close>

record random_source =
  permutation :: "nat \<Rightarrow> nat \<Rightarrow> nat list"
  randint :: "nat \<Rightarrow> nat \<Rightarrow> nat \<Rightarrow> nat"
  uniform :: "nat \<Rightarrow> nat \<Rightarrow> nat \<Rightarrow> real"

definition random_state :: nat where
  "random_state = 42"

text \<open>
  Modelled from the spec: \<^verbatim>\<open>SMOTE.fit_resample\<close> is a library function, not in the
  repository. The specification has it balance the classes by adding synthetic samples
  of the smaller class, each a combination \<open>a + gap * (b - a)\<close> of a sample \<open>a\<close> of that
  class and one of its \<open>k\<close> nearest neighbours \<open>b\<close> of the same class, with \<open>k\<close> fixed to 5,
  deterministically for a fixed seed, and fail with \<open>InsufficientSamplesError\<close> when the
  class has too few members to have \<open>k\<close> neighbours. Every class smaller than the largest
  one is filled up to the size of the largest; the new rows follow the given ones.
\<close>

definition k_neighbors :: nat where
  "k_neighbors = 5"

definition check_array :: "cell list list \<Rightarrow> error + real list list" where
  "check_array x =
     (if list_ex (list_ex (\<lambda>c. c = NaN)) x then Inl NonFiniteError
      else Inr (map (map (\<lambda>c. case c of NaN \<Rightarrow> 0 | Num r \<Rightarrow> r)) x))"

definition sq_dist :: "real list \<Rightarrow> real list \<Rightarrow> real" where
  "sq_dist a b = sum_list (map (\<lambda>(p, q). (p - q)\<^sup>2) (zip a b))"

definition nearest_neighbours :: "nat \<Rightarrow> real list list \<Rightarrow> nat \<Rightarrow> nat list" where
  "nearest_neighbours k xs i =
     take k (sort_key (\<lambda>j. sq_dist (xs ! i) (xs ! j)) (filter (\<lambda>j. j \<noteq> i) [0..<length xs]))"

definition make_sample ::
    "random_source \<Rightarrow> nat \<Rightarrow> nat \<Rightarrow> real list list \<Rightarrow> nat \<Rightarrow> nat \<Rightarrow> real list" where
  "make_sample rnd seed k xs c t =
     (let d = randint rnd seed c t mod (length xs * k);
          row = d div k;
          col = d mod k;
          a = xs ! row;
          b = xs ! (nearest_neighbours k xs row ! col);
          gap = uniform rnd seed c t
      in map (\<lambda>(p, q). p + gap * (q - p)) (zip a b))"

definition class_samples :: "nat \<Rightarrow> real list list \<Rightarrow> nat list \<Rightarrow> real list list" where
  "class_samples c x y = map fst (filter (\<lambda>(r, l). l = c) (zip x y))"

definition class_count :: "nat list \<Rightarrow> nat \<Rightarrow> nat" where
  "class_count y c = length (filter (\<lambda>l. l = c) y)"

definition fit_resample ::
    "random_source \<Rightarrow> nat \<Rightarrow> cell list list \<Rightarrow> nat list \<Rightarrow> error + real list list \<times> nat list" where
  "fit_resample rnd seed x y =
     (case check_array x of
        Inl e \<Rightarrow> Inl e
      | Inr xr \<Rightarrow>
          (let classes = sort (remdups y);
               n_max = fold max (map (class_count y) classes) 0;
               smaller = filter (\<lambda>c. class_count y c < n_max) classes
           in if length x \<noteq> length y then Inl InconsistentLengthError
              else if length classes < 2 then Inl InsufficientSamplesError
              else if list_ex (\<lambda>c. class_count y c \<le> k_neighbors) smaller
                then Inl InsufficientSamplesError
              else Inr (xr @ concat (map (\<lambda>c. map (make_sample rnd seed k_neighbors
                                                       (class_samples c xr y) c)
                                                  [0..<n_max - class_count y c]) smaller),
                        y @ concat (map (\<lambda>c. replicate (n_max - class_count y c) c) smaller))))"

text \<open>
  Modelled from the spec: \<^verbatim>\<open>train_test_split\<close> is a library function, not in the
  repository. The specification has it shuffle the rows with the seeded generator and cut
  them into a test part of 20% and a train part of 80%, the same rows for features and
  labels. A fraction of a row is rounded up for the test part, and a split that leaves
  no training row is refused.
\<close>

definition split_indices :: "random_source \<Rightarrow> nat \<Rightarrow> nat \<Rightarrow> nat list \<times> nat list" where
  "split_indices rnd seed n =
     (let n_test = (n + 4) div 5;
          perm = permutation rnd seed n
      in (drop n_test perm, take n_test perm))"

definition train_test_split ::
    "random_source \<Rightarrow> nat \<Rightarrow> 'a list \<Rightarrow> 'b list \<Rightarrow>
     error + 'a list \<times> 'a list \<times> 'b list \<times> 'b list" where
  "train_test_split rnd seed x y =
     (if length x \<noteq> length y then Inl InconsistentLengthError
      else if length x - (length x + 4) div 5 = 0 then Inl EmptyDatasetError
      else (case split_indices rnd seed (length x) of
              (ind_train, ind_test) \<Rightarrow>
                Inr (map (\<lambda>i. x ! i) ind_train, map (\<lambda>i. x ! i) ind_test,
                     map (\<lambda>i. y ! i) ind_train, map (\<lambda>i. y ! i) ind_test)))"

text \<open>
  The part of \<^verbatim>\<open>prepare_data\<close> that the three scripts share: filter, normalise the
  feature columns, take the features and the label column, resample.
\<close>

definition prepare_data_resampled ::
    "random_source \<Rightarrow> variant \<Rightarrow> dataframe \<Rightarrow> error + real list list \<times> nat list" where
  "prepare_data_resampled rnd v df0 =
     (let df = prepare_data_filter v df0
      in case fit_transform (map (\<lambda>r. map (\<lambda>f. f r) (feature_columns v)) df) of
           Inl e \<Rightarrow> Inl e
         | Inr x \<Rightarrow> fit_resample rnd random_state x (map (label_column v) df))"

text \<open>
  \<^verbatim>\<open>prepare_data\<close> of \<^verbatim>\<open>GradientBoost.py\<close> splits the resampled table as it is.
\<close>

definition prepare_data_boosted ::
    "random_source \<Rightarrow> dataframe \<Rightarrow>
     error + real list list \<times> real list list \<times> nat list \<times> nat list" where
  "prepare_data_boosted rnd df =
     (case prepare_data_resampled rnd Boosted df of
        Inl e \<Rightarrow> Inl e
      | Inr (x_res, y_res) \<Rightarrow> train_test_split rnd random_state x_res y_res)"

text \<open>
  \<^verbatim>\<open>prepare_data\<close> of the two network scripts first reshapes the features to
  \<open>(rows, columns, 1)\<close> and one-hot encodes the labels: \<^verbatim>\<open>to_categorical(y_res)\<close> in
  \<^verbatim>\<open>CNN_LSTM_Hybrid.py\<close>, \<^verbatim>\<open>to_categorical(y_res, num_classes=2)\<close> in
  \<^verbatim>\<open>resnet_Optimized.py\<close>.
\<close>

definition prepare_data_network ::
    "random_source \<Rightarrow> variant \<Rightarrow> dataframe \<Rightarrow>
     error + real list list list \<times> real list list list \<times> nat list list \<times> nat list list" where
  "prepare_data_network rnd v df =
     (case prepare_data_resampled rnd v df of
        Inl e \<Rightarrow> Inl e
      | Inr (x_res, y_res) \<Rightarrow>
          (case to_categorical (case v of Residual \<Rightarrow> Some 2 | _ \<Rightarrow> None) y_res of
             Inl e \<Rightarrow> Inl e
           | Inr y_cat \<Rightarrow>
               train_test_split rnd random_state (map (map (\<lambda>a. [a])) x_res) y_cat))"

text \<open>Rows used in the concrete instances below.\<close>

definition row_good :: FeatureRow where
  "row_good = \<lparr> hrv_sdnn = Num 120, hrv_rmssd = Num 80, hrv_mean = Num 800, cv = Num (1 / 10),
     heart_rate_std = Num 5, heart_rate_mean = Num 75, sd1 = Num 30, sd2 = Num 60,
     signal_quality = Num (9 / 10), num_AFIB_annotations = 0, has_AFIB = 0 \<rparr>"

definition row_noisy :: FeatureRow where
  "row_noisy = row_good \<lparr> hrv_sdnn := Num 650, signal_quality := Num (2 / 10) \<rparr>"

definition row_missing :: FeatureRow where
  "row_missing = row_good \<lparr> hrv_rmssd := NaN \<rparr>"

definition row_afib :: FeatureRow where
  "row_afib = row_good \<lparr> hrv_sdnn := Num 300, cv := Num (4 / 10),
     signal_quality := Num (4 / 10), num_AFIB_annotations := 1, has_AFIB := 1 \<rparr>"

text \<open>A fitted network used in the concrete instances: the softmax row it predicts.\<close>

definition demo_predict :: "real \<Rightarrow> real \<times> real" where
  "demo_predict x = (if x < 0 then (9 / 10, 1 / 10) else (1 / 5, 4 / 5))"

text \<open>A parameter search, a random source and a small table for the concrete instances.\<close>

definition demo_search :: "real list list \<Rightarrow> nat list \<Rightarrow> error + xgb_params" where
  "demo_search x y = Inr \<lparr> n_estimators = 100, learning_rate = 1 / 10, max_depth = 3,
     subsample = 1, colsample_bytree = 1, gamma = 0, min_child_weight = 1 \<rparr>"

definition demo_rnd :: random_source where
  "demo_rnd = \<lparr> permutation = (\<lambda>seed n. rev [0..<n]),
                randint = (\<lambda>seed c t. seed + c + t),
                uniform = (\<lambda>seed c t. 1 / 2) \<rparr>"

definition demo_x :: "cell list list" where
  "demo_x = [[Num 1], [Num 2], [Num 3], [Num 4], [Num 5], [Num 6], [Num 7],
             [Num 11], [Num 12], [Num 13], [Num 14], [Num 15], [Num 16]]"

definition demo_y :: "nat list" where
  "demo_y = [0, 0, 0, 0, 0, 0, 0, 1, 1, 1, 1, 1, 1]"

section \<open>Properties of the quality filter\<close>

lemma prepare_data_filter_conj:
  "prepare_data_filter v df =
     filter (\<lambda>r. sdnn_ok r \<and> rmssd_ok r \<and> cv_ok r \<and> quality_ok v r) df"
  unfolding prepare_data_filter_def Let_def filter_filter
  by (rule filter_cong) auto

lemma apply_masks_filter:
  "apply_masks ms df = filter (\<lambda>r. list_all (\<lambda>m. m r) ms) df"
  unfolding apply_masks_def
proof (induction ms arbitrary: df)
  case Nil
  show ?case by simp
next
  case (Cons m ms)
  show ?case
    unfolding fold_simps Cons.IH filter_filter
    by (rule filter_cong) auto
qed

lemma cell_le_Num: "cell_le c t \<longleftrightarrow> (\<exists>x. c = Num x \<and> x \<le> t)"
  by (cases c) (simp_all add: cell_le_def)

lemma cell_ge_Num: "cell_ge c t \<longleftrightarrow> (\<exists>x. c = Num x \<and> t \<le> x)"
  by (cases c) (simp_all add: cell_ge_def)

text \<open>
  C1. After the quality filtering of \<^verbatim>\<open>prepare_data\<close>, every remaining row has a
  (non-missing) \<open>hrv_sdnn\<close> of at most 500, \<open>hrv_rmssd\<close> of at most 500, \<open>cv\<close> of at
  most 0.5 and a \<open>signal_quality\<close> of at least the threshold, which is 0.3 in the
  recurrent and boosted variants and 0.5 in the residual variant.
\<close>

theorem filter_rows_satisfy_thresholds:
  assumes "r \<in> set (prepare_data_filter v df)"
  shows "(\<exists>x. hrv_sdnn r = Num x \<and> x \<le> 500) \<and>
         (\<exists>x. hrv_rmssd r = Num x \<and> x \<le> 500) \<and>
         (\<exists>x. cv r = Num x \<and> x \<le> 0.5) \<and>
         (\<exists>x. signal_quality r = Num x \<and>
               x \<ge> (if v = Residual then 0.5 else 0.3))"
proof -
  from assms have ok: "sdnn_ok r" "rmssd_ok r" "cv_ok r" "quality_ok v r"
    by (simp_all add: prepare_data_filter_conj)
  have thr: "quality_threshold v = (if v = Residual then 0.5 else 0.3)"
    by (cases v) (simp_all add: quality_threshold_def)
  from ok show ?thesis
    unfolding sdnn_ok_def rmssd_ok_def cv_ok_def quality_ok_def thr cell_le_Num cell_ge_Num
    by simp
qed

theorem filter_rows_satisfy_thresholds_witness:
  "row_afib \<in> set (prepare_data_filter Recurrent [row_noisy, row_afib, row_missing]) \<and>
   row_afib \<notin> set (prepare_data_filter Residual [row_noisy, row_afib, row_missing]) \<and>
   (\<exists>x. signal_quality row_afib = Num x \<and> x \<ge> 0.3)"
proof -
  have m: "row_afib \<in> set (prepare_data_filter Recurrent [row_noisy, row_afib, row_missing])"
    by (simp add: prepare_data_filter_def sdnn_ok_def rmssd_ok_def cv_ok_def quality_ok_def
        quality_threshold_def cell_le_def cell_ge_def row_afib_def row_noisy_def
        row_missing_def row_good_def)
  have n: "row_afib \<notin> set (prepare_data_filter Residual [row_noisy, row_afib, row_missing])"
    by (simp add: prepare_data_filter_def sdnn_ok_def rmssd_ok_def cv_ok_def quality_ok_def
        quality_threshold_def cell_le_def cell_ge_def row_afib_def row_noisy_def
        row_missing_def row_good_def)
  from filter_rows_satisfy_thresholds [OF m] m n show ?thesis by simp
qed

text \<open>
  C8. Applying the four quality selections one after the other in any order (any
  permutation of the list of the four masks) yields the data frame that
  \<^verbatim>\<open>prepare_data\<close> computes.
\<close>

theorem filter_order_irrelevant:
  assumes "mset ms = mset (quality_masks v)"
  shows "apply_masks ms df = prepare_data_filter v df"
proof -
  from assms have "set ms = set (quality_masks v)"
    by (rule mset_eq_setD)
  then have "list_all (\<lambda>m. m r) ms \<longleftrightarrow> list_all (\<lambda>m. m r) (quality_masks v)" for r
    by (simp add: list_all_iff)
  then have "apply_masks ms df = apply_masks (quality_masks v) df"
    by (simp add: apply_masks_filter)
  also have "\<dots> = prepare_data_filter v df"
    by (simp add: apply_masks_def quality_masks_def prepare_data_filter_def)
  finally show ?thesis .
qed

theorem filter_order_irrelevant_witness:
  "mset [quality_ok Boosted, cv_ok, sdnn_ok, rmssd_ok] = mset (quality_masks Boosted) \<and>
   filter rmssd_ok (filter sdnn_ok (filter cv_ok (filter (quality_ok Boosted)
       [row_noisy, row_afib, row_missing]))) =
     prepare_data_filter Boosted [row_noisy, row_afib, row_missing]"
proof -
  have p: "mset [quality_ok Boosted, cv_ok, sdnn_ok, rmssd_ok] = mset (quality_masks Boosted)"
    by (simp add: quality_masks_def add.commute add.left_commute)
  from filter_order_irrelevant [OF p, of "[row_noisy, row_afib, row_missing]"] p
  show ?thesis by (simp add: apply_masks_def)
qed

text \<open>
  C10. The quality filtering returns exactly the input rows that satisfy all four
  threshold predicates, unchanged and in their input order: the result is the input
  list restricted to those rows (hence a subsequence of it, whose elements are input
  rows), and an input row that satisfies the four predicates is in the result as many
  times as in the input.
\<close>

theorem filter_is_exact_subsequence:
  "prepare_data_filter v df =
     filter (\<lambda>r. sdnn_ok r \<and> rmssd_ok r \<and> cv_ok r \<and> quality_ok v r) df \<and>
   subseq (prepare_data_filter v df) df \<and>
   (\<forall>r. sdnn_ok r \<and> rmssd_ok r \<and> cv_ok r \<and> quality_ok v r \<longrightarrow>
        count (mset (prepare_data_filter v df)) r = count (mset df) r)"
  by (simp add: prepare_data_filter_conj)

theorem filter_is_exact_subsequence_witness:
  "prepare_data_filter Recurrent [row_noisy, row_afib, row_missing, row_good, row_afib] =
     [row_afib, row_good, row_afib] \<and>
   count (mset (prepare_data_filter Recurrent
      [row_noisy, row_afib, row_missing, row_good, row_afib])) row_afib = 2"
proof -
  have ok: "sdnn_ok row_afib \<and> rmssd_ok row_afib \<and> cv_ok row_afib \<and> quality_ok Recurrent row_afib"
    by (simp add: sdnn_ok_def rmssd_ok_def cv_ok_def quality_ok_def
        quality_threshold_def cell_le_def cell_ge_def row_afib_def row_good_def)
  have ne: "row_noisy \<noteq> row_afib" "row_missing \<noteq> row_afib" "row_good \<noteq> row_afib"
    by (simp_all add: row_afib_def row_noisy_def row_missing_def row_good_def)
  have c: "count (mset [row_noisy, row_afib, row_missing, row_good, row_afib]) row_afib = 2"
    using ne by simp
  have e: "prepare_data_filter Recurrent [row_noisy, row_afib, row_missing, row_good, row_afib] =
     [row_afib, row_good, row_afib]"
    by (simp add: prepare_data_filter_def sdnn_ok_def rmssd_ok_def cv_ok_def quality_ok_def
        quality_threshold_def cell_le_def cell_ge_def row_afib_def row_noisy_def
        row_missing_def row_good_def)
  from filter_is_exact_subsequence [of Recurrent
      "[row_noisy, row_afib, row_missing, row_good, row_afib]"] ok
  have "count (mset (prepare_data_filter Recurrent
      [row_noisy, row_afib, row_missing, row_good, row_afib])) row_afib =
      count (mset [row_noisy, row_afib, row_missing, row_good, row_afib]) row_afib"
    by blast
  with c e show ?thesis by (simp only: simp_thms)
qed

section \<open>Properties of the report renderer\<close>

lemma os_remove_ok:
  "os_remove p fs = (Inr u, fs') \<Longrightarrow> fs' = fs(p := None)"
  by (auto simp: os_remove_def split: option.splits)

lemma delete_images_ok:
  assumes "delete_images fs = (Inr u, fs')"
  shows "fs' = fs(''classification_report.png'' := None, ''confusion_matrix.png'' := None)"
  using assms
  by (auto simp: delete_images_def split: prod.splits sum.splits dest!: os_remove_ok)

lemma render_report_ok:
  assumes "render_report w v t m fs = (Inr u, fs')"
  shows "fs' ''classification_report.png'' = None \<and> fs' ''confusion_matrix.png'' = None"
proof -
  from assms obtain fs2 where "delete_images fs2 = (Inr u, fs')"
    by (auto simp: render_report_def split: prod.splits sum.splits)
  from delete_images_ok [OF this] show ?thesis by simp
qed

lemmas metric_defs = boosted_metrics_def network_metrics_def accuracy_score_def argmax2_def
  roc_auc_score_matrix_def roc_auc_score_binary_def binary_roc_auc_def scores_of_def
  pairs_credit_def pair_credit_def confusion_matrix_def Let_def

lemmas render_defs = render_report_def create_classification_report_image_def write_file_def
  create_pdf_def read_file_def pdf_filename_def delete_images_def os_remove_def

text \<open>
  C2, as stated, fails. In this run of the recurrent script the report directory cannot
  be written: both images are saved, \<^verbatim>\<open>c.save()\<close> raises, the exception leaves
  \<^verbatim>\<open>evaluate_model\<close> before \<^verbatim>\<open>delete_images()\<close>, and both image files still exist.
\<close>

theorem images_remain_when_pdf_fails:
  "fst (evaluate_model_network (\<lambda>p. p \<noteq> pdf_filename Recurrent) (\<lambda>t p. []) Recurrent
      demo_predict [- 1, 1] [(1, 0), (0, 1)] Map.empty) = Inl ReportWriteError \<and>
   snd (evaluate_model_network (\<lambda>p. p \<noteq> pdf_filename Recurrent) (\<lambda>t p. []) Recurrent
      demo_predict [- 1, 1] [(1, 0), (0, 1)] Map.empty) ''classification_report.png'' \<noteq> None \<and>
   snd (evaluate_model_network (\<lambda>p. p \<noteq> pdf_filename Recurrent) (\<lambda>t p. []) Recurrent
      demo_predict [- 1, 1] [(1, 0), (0, 1)] Map.empty) ''confusion_matrix.png'' \<noteq> None"
  by (simp add: evaluate_model_network_def metric_defs render_defs demo_predict_def)

text \<open>
  C2, amended. When \<^verbatim>\<open>evaluate_model\<close> returns normally (the metrics are defined, the
  two images and the PDF are written), neither \<^verbatim>\<open>classification_report.png\<close> nor
  \<^verbatim>\<open>confusion_matrix.png\<close> exists afterwards, whatever the file system held before.
\<close>

theorem report_success_removes_images:
  assumes "evaluate_model_network w cr v net xs onehot_test fs = (Inr u, fs') \<or>
           evaluate_model_boosted w cr predict_proba predict x_test y_test fs = (Inr u, fs')"
  shows "fs' ''classification_report.png'' = None \<and> fs' ''confusion_matrix.png'' = None"
  using assms
  by (auto simp: evaluate_model_network_def evaluate_model_boosted_def Let_def
      split: sum.splits dest!: render_report_ok)

theorem report_success_removes_images_witness:
  "evaluate_model_network (\<lambda>p. True) (\<lambda>t p. []) Recurrent
      demo_predict [- 1, 1] [(1, 0), (0, 1)]
      [''classification_report.png'' \<mapsto> ReportImage []] =
    (Inr (), [pdf_filename Recurrent \<mapsto> PdfDocument
                        [DrawImage ''classification_report.png'',
                         DrawString ''Accuracy'', DrawNumber 1,
                         DrawString ''ROC AUC Score'', DrawNumber 1,
                         DrawString ''Classification Report'',
                         DrawImage ''confusion_matrix.png'']]) \<and>
   [pdf_filename Recurrent \<mapsto> PdfDocument
                        [DrawImage ''classification_report.png'',
                         DrawString ''Accuracy'', DrawNumber 1,
                         DrawString ''ROC AUC Score'', DrawNumber 1,
                         DrawString ''Classification Report'',
                         DrawImage ''confusion_matrix.png'']] ''classification_report.png'' = None"
proof -
  have run: "evaluate_model_network (\<lambda>p. True) (\<lambda>t p. []) Recurrent
      demo_predict [- 1, 1] [(1, 0), (0, 1)]
      [''classification_report.png'' \<mapsto> ReportImage []] =
    (Inr (), [pdf_filename Recurrent \<mapsto> PdfDocument
                        [DrawImage ''classification_report.png'',
                         DrawString ''Accuracy'', DrawNumber 1,
                         DrawString ''ROC AUC Score'', DrawNumber 1,
                         DrawString ''Classification Report'',
                         DrawImage ''confusion_matrix.png'']])"
    by (simp add: evaluate_model_network_def metric_defs render_defs demo_predict_def
        fun_upd_twist)
  from report_success_removes_images [OF disjI1, OF run] run show ?thesis
    by (simp only: simp_thms)
qed

section \<open>Properties of the evaluator\<close>

lemma scores_of_absent: "c \<notin> set y \<Longrightarrow> scores_of c y s = []"
  unfolding scores_of_def by (auto simp: filter_empty_conv dest: set_zip_leftD)

lemma binary_roc_auc_single_class:
  assumes "length y = length s" and "\<forall>l\<in>set y. l = c" and "c = 0 \<or> c = 1"
  shows "binary_roc_auc y s = Inl MetricUndefinedError"
proof -
  from assms(2,3) have la: "list_all (\<lambda>l. l = 0 \<or> l = 1) y"
    by (auto simp: list_all_iff)
  from assms(2,3) have "1 \<notin> set y \<or> 0 \<notin> set y" by auto
  then have "scores_of 1 y s = [] \<or> scores_of 0 y s = []"
    by (auto simp: scores_of_absent)
  with assms(1) la show ?thesis
    unfolding binary_roc_auc_def Let_def by simp
qed

text \<open>
  C3. When the ground-truth labels of a (non-empty) test set are all of one class,
  \<^verbatim>\<open>evaluate_model\<close> ends with the error of the undefined ROC-AUC, in the boosted script
  (label vector) and in the network scripts (one-hot label matrix) alike; no report is
  rendered, so no placeholder value is written anywhere and the file system is unchanged.
\<close>

theorem single_class_roc_auc_undefined:
  assumes "y_test \<noteq> []" and "length x_test = length y_test"
    and "c = 0 \<or> c = 1" and "\<forall>l\<in>set y_test. l = c"
    and "onehot_test \<noteq> []" and "length xs = length onehot_test"
    and "h = (1, 0) \<or> h = (0, 1)" and "\<forall>r\<in>set onehot_test. r = h"
  shows "evaluate_model_boosted writable cr predict_proba predict x_test y_test fs =
           (Inl MetricUndefinedError, fs) \<and>
         evaluate_model_network writable cr v net xs onehot_test fs =
           (Inl MetricUndefinedError, fs)"
proof
  have "binary_roc_auc y_test (map snd (map predict_proba x_test)) = Inl MetricUndefinedError"
    using assms(2-4) by (intro binary_roc_auc_single_class [where c = c]) simp_all
  with assms(1,2) show "evaluate_model_boosted writable cr predict_proba predict x_test y_test fs =
           (Inl MetricUndefinedError, fs)"
    by (simp add: evaluate_model_boosted_def boosted_metrics_def accuracy_score_def
        roc_auc_score_binary_def Let_def)
next
  from assms(7,8) have "\<forall>l\<in>set (map fst onehot_test). l = fst h" and "fst h = 0 \<or> fst h = 1"
    by auto
  then have "binary_roc_auc (map fst onehot_test) (map fst (map net xs)) = Inl MetricUndefinedError"
    using assms(6) by (intro binary_roc_auc_single_class [where c = "fst h"]) simp_all
  with assms(5,6) show "evaluate_model_network writable cr v net xs onehot_test fs =
           (Inl MetricUndefinedError, fs)"
    by (simp add: evaluate_model_network_def network_metrics_def accuracy_score_def
        roc_auc_score_matrix_def Let_def)
qed

theorem single_class_roc_auc_undefined_witness:
  "evaluate_model_boosted (\<lambda>p. True) (\<lambda>t p. []) demo_predict (\<lambda>x. argmax2 (demo_predict x))
      [- 1, 1, 2] [1, 1, 1] Map.empty = (Inl MetricUndefinedError, Map.empty) \<and>
   evaluate_model_network (\<lambda>p. True) (\<lambda>t p. []) Residual demo_predict
      [- 1, 1] [(1, 0), (1, 0)] Map.empty = (Inl MetricUndefinedError, Map.empty)"
  using single_class_roc_auc_undefined [of "[1, 1, 1]" "[- 1, 1, 2 :: real]" 1
      "[(1, 0), (1, 0)]" "[- 1, 1 :: real]" "(1, 0)" "\<lambda>p. True" "\<lambda>t p. []" demo_predict
      "\<lambda>x. argmax2 (demo_predict x)" Map.empty Residual demo_predict]
  by simp

lemma sum_list_swap2:
  "(\<Sum>x\<leftarrow>xs. \<Sum>y\<leftarrow>ys. (f x y :: real)) = (\<Sum>y\<leftarrow>ys. \<Sum>x\<leftarrow>xs. f x y)"
  by (induction xs) (simp_all add: sum_list_addf)

lemma pair_credit_flip: "pair_credit (1 - a) (1 - b) = pair_credit b a"
  by (simp add: pair_credit_def)

lemma pairs_credit_flip:
  "pairs_credit (map (\<lambda>x. 1 - x) neg) (map (\<lambda>x. 1 - x) pos) = pairs_credit pos neg"
proof -
  have "pairs_credit (map (\<lambda>x. 1 - x) neg) (map (\<lambda>x. 1 - x) pos) =
        (\<Sum>n\<leftarrow>neg. \<Sum>p\<leftarrow>pos. pair_credit p n)"
    by (simp add: pairs_credit_def comp_def pair_credit_flip)
  also have "\<dots> = pairs_credit pos neg"
    unfolding pairs_credit_def by (rule sum_list_swap2)
  finally show ?thesis .
qed

lemma scores_of_onehot:
  assumes "length ys = length ps"
    and "\<forall>r\<in>set ys. r = (1, 0) \<or> r = (0, 1)"
    and "\<forall>p\<in>set ps. fst p + snd p = 1"
  shows "scores_of 1 (map fst ys) (map fst ps) =
           map (\<lambda>x. 1 - x) (scores_of 0 (map snd ys) (map snd ps)) \<and>
         scores_of 0 (map fst ys) (map fst ps) =
           map (\<lambda>x. 1 - x) (scores_of 1 (map snd ys) (map snd ps))"
  using assms
proof (induction ys ps rule: list_induct2)
  case Nil
  show ?case by (simp add: scores_of_def)
next
  case (Cons y ys p ps)
  from Cons.prems have "fst p = 1 - snd p" by (simp add: algebra_simps)
  with Cons show ?case
    by (auto simp: scores_of_def)
qed

lemma onehot_cols:
  assumes "\<forall>r\<in>set ys. r = (1, 0) \<or> r = ((0::nat), (1::nat))"
  shows "list_all (\<lambda>l. l = 0 \<or> l = 1) (map fst ys)"
    and "list_all (\<lambda>l. l = 0 \<or> l = 1) (map snd ys)"
    and "map argmax2 ys = map snd ys"
  using assms by (induction ys) (auto simp: argmax2_def)

lemma binary_roc_auc_eq:
  assumes "length y = length s" "list_all (\<lambda>l. l = 0 \<or> l = 1) y"
  shows "binary_roc_auc y s =
     (if scores_of 1 y s = [] \<or> scores_of 0 y s = [] then Inl MetricUndefinedError
      else Inr (pairs_credit (scores_of 1 y s) (scores_of 0 y s) /
                (real (length (scores_of 1 y s)) * real (length (scores_of 0 y s)))))"
  using assms unfolding binary_roc_auc_def Let_def by simp

lemma roc_auc_score_matrix_onehot:
  assumes "\<forall>r\<in>set ys. r = (1, 0) \<or> r = (0, 1)"
    and "\<forall>p\<in>set ps. fst p + snd p = 1"
  shows "roc_auc_score_matrix ys ps = binary_roc_auc (map argmax2 ys) (map snd ps)"
proof (cases "length ys = length ps")
  case False
  then show ?thesis
    by (simp add: roc_auc_score_matrix_def binary_roc_auc_def onehot_cols(3) [OF assms(1)])
next
  case True
  note sc = scores_of_onehot [OF True assms]
  note oc = onehot_cols [OF assms(1)]
  define P where "P = scores_of 1 (map snd ys) (map snd ps)"
  define N where "N = scores_of 0 (map snd ys) (map snd ps)"
  have b1: "binary_roc_auc (map snd ys) (map snd ps) =
     (if P = [] \<or> N = [] then Inl MetricUndefinedError
      else Inr (pairs_credit P N / (real (length P) * real (length N))))"
    unfolding P_def N_def using True oc(2) by (intro binary_roc_auc_eq) simp_all
  have "binary_roc_auc (map fst ys) (map fst ps) =
     (if map (\<lambda>x. 1 - x) N = [] \<or> map (\<lambda>x. 1 - x) P = [] then Inl MetricUndefinedError
      else Inr (pairs_credit (map (\<lambda>x. 1 - x) N) (map (\<lambda>x. 1 - x) P) /
         (real (length (map (\<lambda>x. 1 - x) N)) * real (length (map (\<lambda>x. 1 - x) P)))))"
    unfolding P_def N_def sc [THEN conjunct1, symmetric] sc [THEN conjunct2, symmetric]
    using True oc(1) by (intro binary_roc_auc_eq) simp_all
  then have b0: "binary_roc_auc (map fst ys) (map fst ps) =
     (if P = [] \<or> N = [] then Inl MetricUndefinedError
      else Inr (pairs_credit P N / (real (length P) * real (length N))))"
    by (auto simp: pairs_credit_flip mult.commute)
  show ?thesis
    unfolding roc_auc_score_matrix_def oc(3) b0 b1 by simp
qed

lemma boosted_roc_auc_is_class1_area:
  assumes "boosted_metrics y_test y_pred proba = Inr m"
  shows "binary_roc_auc y_test (map snd proba) = Inr (roc_auc m)"
  using assms
  by (auto simp: boosted_metrics_def roc_auc_score_binary_def Let_def split: sum.splits)

lemma network_roc_auc_is_column_mean:
  assumes "network_metrics onehot_test proba = Inr m"
  shows "\<exists>a0 a1. binary_roc_auc (map fst onehot_test) (map fst proba) = Inr a0 \<and>
                 binary_roc_auc (map snd onehot_test) (map snd proba) = Inr a1 \<and>
                 roc_auc m = (a0 + a1) / 2"
  using assms
  by (auto simp: network_metrics_def roc_auc_score_matrix_def Let_def split: sum.splits)

lemma network_roc_auc_when_rows_sum_to_one:
  assumes "network_metrics onehot_test proba = Inr m"
    and "\<forall>r\<in>set onehot_test. r = (1, 0) \<or> r = (0, 1)"
    and "\<forall>p\<in>set proba. fst p + snd p = 1"
  shows "binary_roc_auc (map argmax2 onehot_test) (map snd proba) = Inr (roc_auc m)"
proof -
  from assms(1) have "roc_auc_score_matrix onehot_test proba = Inr (roc_auc m)"
    by (auto simp: network_metrics_def Let_def split: sum.splits)
  then show ?thesis
    by (simp add: roc_auc_score_matrix_onehot [OF assms(2,3)])
qed

text \<open>
  C4 holds in \<^verbatim>\<open>GradientBoost.py\<close>, which passes the class-1 column
  \<^verbatim>\<open>y_pred_proba[:, 1]\<close>, and fails in the two network scripts, which pass the one-hot
  label matrix and the whole probability matrix and so report the mean of the two
  per-column areas. The two test samples below have the true classes 0 and 1 and the
  softmax rows \<open>(1, 2\<^sup>-\<^sup>7\<^sup>0)\<close> and \<open>(1, 2\<^sup>-\<^sup>6\<^sup>9)\<close> (in float32 the first entry rounds to 1):
  the class-1 probability separates them, so the area C4 names is 1; the class-0
  column ties (area 1/2), and \<^verbatim>\<open>evaluate_model\<close> reports 3/4.
\<close>

theorem roc_auc_matrix_counterexample:
  "network_metrics [(1, 0), (0, 1)] [(1, 1 / 2 ^ 70), (1, 1 / 2 ^ 69)] =
     Inr \<lparr> accuracy = 1 / 2, conf_matrix = [[1, 0], [1, 0]], roc_auc = 3 / 4 \<rparr> \<and>
   binary_roc_auc (map argmax2 [(1, 0), (0 :: nat, 1 :: nat)])
     (map snd [(1, 1 / 2 ^ 70), (1, 1 / 2 ^ 69)]) = Inr 1"
  by (simp add: metric_defs)

section \<open>Properties of model building\<close>

lemma add_layers_flatten_lstm:
  "\<exists>e. add_layers (ls @ Flatten # LSTM u rs # ls') m = Inl e"
proof (induction ls arbitrary: m)
  case Nil
  show ?case by (simp add: model_add_def layer_input_def)
next
  case (Cons l ls)
  show ?case
  proof (cases "model_add l m")
    case (Inl e)
    then show ?thesis by simp
  next
    case (Inr m')
    with Cons.IH [of m'] show ?thesis by simp
  qed
qed

lemma build_cnn_lstm_model_never_saves:
  "\<exists>e. build_cnn_lstm_model writable input_shape num_filters kernel_size lstm_units
          dropout_rate fs = (Inl e, fs)"
proof -
  from add_layers_flatten_lstm
    [of "[Conv1D num_filters kernel_size (Some input_shape), BatchNormalization, MaxPooling1D 2,
          Conv1D (num_filters * 2) kernel_size None, BatchNormalization, MaxPooling1D 2]"
        lstm_units True
        "[Dropout dropout_rate, LSTM lstm_units True, Dropout dropout_rate,
          LSTM lstm_units False, Dropout dropout_rate, Dense 2]" Sequential]
  obtain e where "add_layers
             [Conv1D num_filters kernel_size (Some input_shape),
              BatchNormalization,
              MaxPooling1D 2,
              Conv1D (num_filters * 2) kernel_size None,
              BatchNormalization,
              MaxPooling1D 2,
              Flatten,
              LSTM lstm_units True,
              Dropout dropout_rate,
              LSTM lstm_units True,
              Dropout dropout_rate,
              LSTM lstm_units False,
              Dropout dropout_rate,
              Dense 2] Sequential = Inl e"
    by auto
  then show ?thesis
    by (simp add: build_cnn_lstm_model_def)
qed

lemma boosted_model_pickled_untrained:
  assumes "writable ''../models/XGBoost_model.pkl''"
  shows "snd (build_gradient_boosting_model writable search x_train y_train fs)
           ''../models/XGBoost_model.pkl'' = Some (PickleFile \<lparr> params = None, fit_count = 0 \<rparr>) \<and>
         (\<forall>best. fst (build_gradient_boosting_model writable search x_train y_train fs) = Inr best
            \<longrightarrow> fit_count best = 1 \<and> params best \<noteq> None)"
  using assms
  by (auto simp: build_gradient_boosting_model_def write_file_def
      random_search_best_estimator_def fit_def Let_def split: sum.splits if_splits)

lemma boosted_model_pickled_untrained_instance:
  "build_gradient_boosting_model (\<lambda>p. True) demo_search
     [[0], [1], [2], [3], [4], [5]] [0, 0, 0, 1, 1, 1] Map.empty =
     (Inr \<lparr> params = Some \<lparr> n_estimators = 100, learning_rate = 1 / 10, max_depth = 3,
               subsample = 1, colsample_bytree = 1, gamma = 0, min_child_weight = 1 \<rparr>,
            fit_count = 1 \<rparr>,
      [''../models/XGBoost_model.pkl'' \<mapsto> PickleFile \<lparr> params = None, fit_count = 0 \<rparr>])"
  by (simp add: build_gradient_boosting_model_def write_file_def
      random_search_best_estimator_def fit_def demo_search_def Let_def)

text \<open>
  C9 holds in \<^verbatim>\<open>GradientBoost.py\<close> (the two lemmas above: the pickled file holds the
  classifier as constructed, whatever the search does afterwards) and fails in
  \<^verbatim>\<open>CNN_LSTM_Hybrid.py\<close>: \<^verbatim>\<open>build_cnn_lstm_model\<close> places \<^verbatim>\<open>model.save\<close> after
  \<^verbatim>\<open>compile\<close> and before any \<^verbatim>\<open>fit\<close>, but it adds an \<^verbatim>\<open>LSTM\<close> layer directly after
  \<^verbatim>\<open>Flatten\<close>, so \<^verbatim>\<open>model.add\<close> raises and the save is never reached. With the input shape
  \<open>(8, 1)\<close> of the eight feature columns, 32 filters, kernel size 2, 50 units, dropout 0.2
  and every path writable, the call ends in the layer's error and no file is written.
\<close>

theorem cnn_lstm_builder_raises_before_save:
  "build_cnn_lstm_model (\<lambda>p. True) (8, 1) 32 2 50 (1 / 5) Map.empty =
     (Inl LayerInputError, Map.empty)"
  by (simp add: build_cnn_lstm_model_def model_add_def layer_input_def Sequential_def)

section \<open>Properties of normalisation, resampling and splitting\<close>

text \<open>
  C7. When the quality filters remove every row, the normalisation step fails with
  \<open>EmptyDatasetError\<close> and \<^verbatim>\<open>prepare_data\<close> ends with that error, before any resampling
  or splitting, in every script.
\<close>

theorem empty_after_filter_fails:
  assumes "prepare_data_filter v df = []"
  shows "prepare_data_resampled rnd v df = Inl EmptyDatasetError \<and>
         prepare_data_network rnd v df = Inl EmptyDatasetError \<and>
         (v = Boosted \<longrightarrow> prepare_data_boosted rnd df = Inl EmptyDatasetError)"
proof -
  from assms have "prepare_data_resampled rnd v df = Inl EmptyDatasetError"
    by (simp add: prepare_data_resampled_def fit_transform_def)
  then show ?thesis
    by (auto simp: prepare_data_network_def prepare_data_boosted_def)
qed

theorem empty_after_filter_fails_witness:
  "prepare_data_filter Boosted [row_noisy, row_missing] = [] \<and>
   prepare_data_boosted demo_rnd [row_noisy, row_missing] = Inl EmptyDatasetError \<and>
   prepare_data_network demo_rnd Boosted [row_noisy, row_missing] = Inl EmptyDatasetError"
proof -
  have e: "prepare_data_filter Boosted [row_noisy, row_missing] = []"
    by (simp add: prepare_data_filter_def sdnn_ok_def rmssd_ok_def cv_ok_def quality_ok_def
        quality_threshold_def cell_le_def cell_ge_def row_noisy_def row_missing_def row_good_def)
  from empty_after_filter_fails [OF e, of demo_rnd] e show ?thesis by simp
qed

lemma classes_binary:
  assumes "set y = {0, 1::nat}"
  shows "sort (remdups y) = [0, 1]"
proof -
  have "sort (remdups y) = sorted_list_of_set (set y)"
    by (simp add: sorted_list_of_set_sort_remdups)
  also have "\<dots> = [0, 1]"
    unfolding assms by simp
  finally show ?thesis .
qed

lemma check_array_ok:
  assumes "\<not> list_ex (list_ex (\<lambda>c. c = NaN)) x"
  shows "\<exists>xr. check_array x = Inr xr \<and> length xr = length x"
  using assms by (simp add: check_array_def)

lemma class_count_append: "class_count (a @ b) c = class_count a c + class_count b c"
  by (simp add: class_count_def)

lemma class_count_replicate: "class_count (replicate n d) c = (if d = c then n else 0)"
  by (simp add: class_count_def)

text \<open>
  C6. For a table without missing values whose labels are the two classes 0 and 1, each
  with more than \<open>k\<close> members (so that every sample of the smaller class has \<open>k\<close>
  neighbours of its class), the resampler returns a table in which both classes have
  exactly as many rows as the larger class had.
\<close>

theorem resampling_balances_classes:
  assumes len: "length x = length y"
    and fin: "\<not> list_ex (list_ex (\<lambda>c. c = NaN)) x"
    and bin: "set y = {0, 1}"
    and k0: "k_neighbors < class_count y 0"
    and k1: "k_neighbors < class_count y 1"
  shows "\<exists>x' y'. fit_resample rnd seed x y = Inr (x', y') \<and>
           class_count y' 0 = class_count y' 1 \<and>
           class_count y' 1 = max (class_count y 0) (class_count y 1) \<and>
           length x' = length y'"
proof -
  from check_array_ok [OF fin] obtain xr where
    xr: "check_array x = Inr xr" "length xr = length x" by blast
  note cl = classes_binary [OF bin]
  consider (lt) "class_count y 0 < class_count y 1"
    | (gt) "class_count y 1 < class_count y 0"
    | (eq) "class_count y 0 = class_count y 1"
    by linarith
  then show ?thesis
  proof cases
    case lt
    with k0 k1 len xr show ?thesis
      by (simp add: fit_resample_def cl Let_def class_count_append class_count_replicate max_def)
  next
    case gt
    with k0 k1 len xr show ?thesis
      by (simp add: fit_resample_def cl Let_def class_count_append class_count_replicate max_def)
  next
    case eq
    with k0 k1 len xr show ?thesis
      by (simp add: fit_resample_def cl Let_def class_count_append class_count_replicate max_def)
  qed
qed

theorem resampling_balances_classes_witness:
  "length demo_x = length demo_y \<and> set demo_y = {0, 1} \<and>
   class_count demo_y 0 = 7 \<and> class_count demo_y 1 = 6 \<and>
   (\<exists>x' y'. fit_resample demo_rnd random_state demo_x demo_y = Inr (x', y') \<and>
      class_count y' 0 = class_count y' 1 \<and> class_count y' 1 = 7 \<and> length x' = length y')"
proof -
  have len: "length demo_x = length demo_y" by (simp add: demo_x_def demo_y_def)
  have fin: "\<not> list_ex (list_ex (\<lambda>c. c = NaN)) demo_x" by (simp add: demo_x_def)
  have bin: "set demo_y = {0, 1}" by (auto simp: demo_y_def)
  have c0: "class_count demo_y 0 = 7" by (simp add: class_count_def demo_y_def)
  have c1: "class_count demo_y 1 = 6" by (simp add: class_count_def demo_y_def)
  have k0: "k_neighbors < class_count demo_y 0" using c0 by (simp add: k_neighbors_def)
  have k1: "k_neighbors < class_count demo_y 1" using c1 by (simp add: k_neighbors_def)
  from resampling_balances_classes [OF len fin bin k0 k1, of demo_rnd random_state]
    len bin c0 c1 show ?thesis by simp
qed

lemma perm_facts:
  assumes "mset p = mset [0..<n]"
  shows "distinct p" "set p = {0..<n}" "length p = n"
proof -
  from assms show "distinct p" by (metis distinct_upt mset_eq_imp_distinct_iff)
  from assms show "set p = {0..<n}" by (metis atLeastLessThan_upt mset_eq_setD)
  from assms show "length p = n" by (metis length_upt mset_eq_length minus_nat.diff_0)
qed

lemma mset_map_nth_perm:
  assumes "mset p = mset [0..<length xs]"
  shows "mset (map (\<lambda>i. xs ! i) p) = mset xs"
proof -
  have "mset (map (\<lambda>i. xs ! i) p) = image_mset (\<lambda>i. xs ! i) (mset p)" by simp
  also have "\<dots> = mset (map (\<lambda>i. xs ! i) [0..<length xs])" unfolding assms by simp
  also have "\<dots> = mset xs" by (simp add: map_nth)
  finally show ?thesis .
qed

lemma zip_map_nth:
  assumes "length x = length y" "set is \<subseteq> {0..<length x}"
  shows "zip (map (\<lambda>i. x ! i) is) (map (\<lambda>i. y ! i) is) = map (\<lambda>i. zip x y ! i) is"
  using assms by (induction "is") auto

text \<open>
  C5. For a table of at least two rows, and a seed for which the generator draws a
  permutation of the row indices, the splitter returns a train and a test part such
  that: the two index sets are disjoint and together are all row indices; the rows
  (feature row with its label) of the two parts together are exactly the rows of the
  table, each as often as in the table, so their union as a set is the table; the test
  part has 20% of the rows, a fraction of a row rounded up (exactly a fifth when the
  number of rows is a multiple of 5); and the same table with the same seed yields this
  same partition again.
\<close>

theorem split_is_partition:
  assumes len: "length x = length y"
    and two: "2 \<le> length x"
    and perm: "mset (permutation rnd seed (length x)) = mset [0..<length x]"
  shows "\<exists>x_train x_test y_train y_test.
           train_test_split rnd seed x y = Inr (x_train, x_test, y_train, y_test) \<and>
           set (fst (split_indices rnd seed (length x))) \<inter>
             set (snd (split_indices rnd seed (length x))) = {} \<and>
           set (fst (split_indices rnd seed (length x))) \<union>
             set (snd (split_indices rnd seed (length x))) = {0..<length x} \<and>
           mset (zip x_train y_train) + mset (zip x_test y_test) = mset (zip x y) \<and>
           set (zip x_train y_train) \<union> set (zip x_test y_test) = set (zip x y) \<and>
           length x_test = (length x + 4) div 5 \<and>
           length x_train = length x - (length x + 4) div 5 \<and>
           (5 dvd length x \<longrightarrow> 5 * length x_test = length x) \<and>
           (\<forall>x2 y2. x2 = x \<and> y2 = y \<longrightarrow>
              train_test_split rnd seed x2 y2 = Inr (x_train, x_test, y_train, y_test))"
proof -
  define n where "n = length x"
  define p where "p = permutation rnd seed n"
  define k where "k = (n + 4) div 5"
  define tr where "tr = drop k p"
  define te where "te = take k p"
  have pf: "distinct p" "set p = {0..<n}" "length p = n"
    using perm_facts [of p n] perm unfolding p_def n_def by auto
  have si: "split_indices rnd seed n = (tr, te)"
    by (simp add: split_indices_def Let_def tr_def te_def p_def k_def)
  have kn: "k < n" using two unfolding k_def n_def by linarith
  have app: "te @ tr = p" by (simp add: te_def tr_def)
  have disj: "set tr \<inter> set te = {}"
    using pf(1) unfolding app [symmetric] by auto
  have un: "set tr \<union> set te = {0..<n}"
    using pf(2) unfolding app [symmetric] by auto
  have sub: "set tr \<subseteq> {0..<length x}" "set te \<subseteq> {0..<length x}"
    using un unfolding n_def by auto
  define zs where "zs = zip x y"
  have lz: "length zs = n" by (simp add: zs_def n_def len)
  have ztr: "zip (map (\<lambda>i. x ! i) tr) (map (\<lambda>i. y ! i) tr) = map (\<lambda>i. zs ! i) tr"
    unfolding zs_def by (rule zip_map_nth [OF len sub(1)])
  have zte: "zip (map (\<lambda>i. x ! i) te) (map (\<lambda>i. y ! i) te) = map (\<lambda>i. zs ! i) te"
    unfolding zs_def by (rule zip_map_nth [OF len sub(2)])
  have "mset (map (\<lambda>i. zs ! i) tr) + mset (map (\<lambda>i. zs ! i) te) = mset (map (\<lambda>i. zs ! i) (te @ tr))"
    by simp
  also have "\<dots> = mset zs"
    unfolding app using perm lz by (intro mset_map_nth_perm) (simp add: p_def n_def)
  finally have ms: "mset (map (\<lambda>i. zs ! i) tr) + mset (map (\<lambda>i. zs ! i) te) = mset zs" .
  from arg_cong [OF ms, of set_mset]
  have st: "set (map (\<lambda>i. zs ! i) tr) \<union> set (map (\<lambda>i. zs ! i) te) = set zs"
    by simp
  have lte: "length te = k" using kn pf(3) by (simp add: te_def)
  have ltr: "length tr = n - k" using pf(3) by (simp add: tr_def)
  have res: "train_test_split rnd seed x y =
      Inr (map (\<lambda>i. x ! i) tr, map (\<lambda>i. x ! i) te, map (\<lambda>i. y ! i) tr, map (\<lambda>i. y ! i) te)"
    using len kn si unfolding train_test_split_def n_def [symmetric] k_def [symmetric]
    by simp
  have dv: "5 dvd n \<longrightarrow> 5 * k = n" unfolding k_def by presburger
  show ?thesis
    unfolding n_def [symmetric] si
    apply (rule exI [of _ "map (\<lambda>i. x ! i) tr"])
    apply (rule exI [of _ "map (\<lambda>i. x ! i) te"])
    apply (rule exI [of _ "map (\<lambda>i. y ! i) tr"])
    apply (rule exI [of _ "map (\<lambda>i. y ! i) te"])
    using res disj un ms st lte ltr dv
    unfolding ztr zte zs_def [symmetric] k_def [symmetric] n_def [symmetric]
    by simp
qed

lemma demo_split: "train_test_split demo_rnd random_state [10, 20, 30, 40, 50 :: nat] [0, 1, 0, 1, 1 :: nat] =
      Inr ([40, 30, 20, 10], [50], [1, 0, 1, 0], [1])"
  by (simp add: train_test_split_def split_indices_def demo_rnd_def upt_rec)

theorem split_is_partition_witness:
  "mset (permutation demo_rnd random_state 5) = mset [0..<5] \<and>
   train_test_split demo_rnd random_state [10, 20, 30, 40, 50 :: nat] [0, 1, 0, 1, 1 :: nat] =
      Inr ([40, 30, 20, 10], [50], [1, 0, 1, 0], [1]) \<and>
   (\<exists>x_train x_test y_train y_test.
      train_test_split demo_rnd random_state [10, 20, 30, 40, 50 :: nat] [0, 1, 0, 1, 1 :: nat] =
        Inr (x_train, x_test, y_train, y_test) \<and>
      mset (zip x_train y_train) + mset (zip x_test y_test) =
        mset (zip [10, 20, 30, 40, 50] [0, 1, 0, 1, 1]) \<and>
      length x_test = 1)"
proof -
  have len: "length [10, 20, 30, 40, 50 :: nat] = length [0, 1, 0, 1, 1 :: nat]" by simp
  have two: "2 \<le> length [10, 20, 30, 40, 50 :: nat]" by simp
  have perm: "mset (permutation demo_rnd random_state (length [10, 20, 30, 40, 50 :: nat])) =
      mset [0..<length [10, 20, 30, 40, 50 :: nat]]"
    by (simp add: demo_rnd_def)
  have perm5: "mset (permutation demo_rnd random_state 5) = mset [0..<5]"
    by (simp add: demo_rnd_def)
  from split_is_partition [OF len two perm]
  have "\<exists>x_train x_test y_train y_test.
      train_test_split demo_rnd random_state [10, 20, 30, 40, 50 :: nat] [0, 1, 0, 1, 1 :: nat] =
        Inr (x_train, x_test, y_train, y_test) \<and>
      mset (zip x_train y_train) + mset (zip x_test y_test) =
        mset (zip [10, 20, 30, 40, 50] [0, 1, 0, 1, 1]) \<and>
      length x_test = (length [10, 20, 30, 40, 50 :: nat] + 4) div 5"
    by (elim exE conjE) (intro exI conjI, assumption+)
  then have "\<exists>x_train x_test y_train y_test.
      train_test_split demo_rnd random_state [10, 20, 30, 40, 50 :: nat] [0, 1, 0, 1, 1 :: nat] =
        Inr (x_train, x_test, y_train, y_test) \<and>
      mset (zip x_train y_train) + mset (zip x_test y_test) =
        mset (zip [10, 20, 30, 40, 50] [0, 1, 0, 1, 1]) \<and>
      length x_test = 1"
    by simp
  with perm5 demo_split show ?thesis by (simp only: simp_thms)
qed

end
